theory Spec2Isabelle
  imports Main "HOL-Library.Word"
begin

section \<open>Data model of main.go\<close>

text \<open>
  The constants of the source: the database, the collection and the endpoint.
\<close>

definition DBName :: string where
  "DBName = ''expenses''"

definition ExpenseCollections :: string where
  "ExpenseCollections = ''expense''"

definition URI :: string where
  "URI = ''mongodb://localhost:27017''"

text \<open>
  The struct \<open>Expense\<close>. \<open>ID\<close> is a \<open>primitive.ObjectID\<close>, twelve bytes, read as a
  96-bit word. \<open>Amount\<close> is a \<open>float64\<close>, kept as its 64-bit pattern: the layer never
  computes with it, it only hands it on. \<open>Date\<close> is a \<open>time.Time\<close>, kept as the
  nanoseconds since Go's zero time, so that the zero value of the struct has every field zero.
\<close>

record Expense =
  ID :: "96 word"
  ExpenseID :: string
  Title :: string
  Amount :: "64 word"
  Date :: int

definition zeroExpense :: Expense where
  "zeroExpense = \<lparr>ID = 0, ExpenseID = [], Title = [], Amount = 0, Date = 0\<rparr>"

text \<open>
  A Go \<open>error\<close> is a value of \<open>error option\<close>, \<open>None\<close> being \<open>nil\<close>. The only error
  the source names is \<open>mongo.ErrNoDocuments\<close>; every other one comes from the driver.
\<close>

datatype error = ErrNoDocuments | DriverError string

text \<open>
  A \<open>*mongo.Client\<close> is a value of \<open>client option\<close>, \<open>None\<close> being the nil pointer.
  A collection handle remembers the client and the two names it was made from.
\<close>

datatype client = Client nat

datatype database = Database "client option" string

datatype collection = Collection database string

text \<open>
  A \<open>bson.D\<close> is an ordered list of elements \<open>primitive.E{Key, Value}\<close>; the values the
  source puts there are a string or nothing at all.
\<close>

datatype bval = BNil | BString string

type_synonym bsonD = "(string \<times> bval) list"

text \<open>An element of a \<open>[]interface{}\<close>: nil, or an \<open>Expense\<close> stored in the interface.\<close>

datatype iface = INil | Boxed Expense

text \<open>
  A cursor is the finite sequence of documents that \<open>Next\<close> is still to deliver, each
  with what \<open>Decode\<close> makes of it: an error, or the decoded \<open>Expense\<close>.
\<close>

type_synonym cursor = "(error + Expense) list"

section \<open>The driver, and the calls made to it\<close>

text \<open>
  The MongoDB driver is an import of main.go, so the program is modelled over an
  arbitrary driver: one function for each driver call the source makes, each reading
  and changing the state \<open>'s\<close> of whatever is behind the driver. \<open>mongo.Connect\<close> returns
  the Go pair of a client and an error as it is, because the source uses the client
  whether the error is nil or not. \<open>Ping\<close> is asked of the driver for a client that
  is not nil only: on the nil client the call panics before the driver does anything
  (see \<open>pingCall\<close> below). \<open>FindOne(...).Decode(&result)\<close> takes the value
  of \<open>result\<close> before the call and returns its value after it. \<open>DeleteOne\<close> and
  \<open>DeleteMany\<close> return the count of deleted documents next to the error.
\<close>

record 's driver =
  drvConnect :: "string \<Rightarrow> 's \<Rightarrow> (client option \<times> error option) \<times> 's"
  drvPing :: "client option \<Rightarrow> 's \<Rightarrow> error option \<times> 's"
  drvInsertOne :: "collection \<Rightarrow> Expense \<Rightarrow> 's \<Rightarrow> error option \<times> 's"
  drvInsertMany :: "collection \<Rightarrow> iface list \<Rightarrow> 's \<Rightarrow> error option \<times> 's"
  drvFindOne :: "collection \<Rightarrow> bsonD \<Rightarrow> Expense \<Rightarrow> 's \<Rightarrow> (Expense \<times> error option) \<times> 's"
  drvFind :: "collection \<Rightarrow> bsonD \<Rightarrow> 's \<Rightarrow> (error + cursor) \<times> 's"
  drvDeleteOne :: "collection \<Rightarrow> bsonD \<Rightarrow> 's \<Rightarrow> (nat \<times> error option) \<times> 's"
  drvDeleteMany :: "collection \<Rightarrow> bsonD \<Rightarrow> 's \<Rightarrow> (nat \<times> error option) \<times> 's"

text \<open>Every call site of the driver in the source leaves one entry in a log.\<close>

datatype call =
    CallConnect string
  | CallPing "client option"
  | CallInsertOne collection Expense
  | CallInsertMany collection "iface list"
  | CallFindOne collection bsonD
  | CallFind collection bsonD
  | CallCursorNext
  | CallCursorDecode
  | CallCursorClose
  | CallDeleteOne collection bsonD
  | CallDeleteMany collection bsonD

text \<open>
  The state of the process: the three package variables of the source (\<open>mongoOnce\<close>
  is the done flag of the \<open>sync.Once\<close>), the state behind the driver, and the log.
\<close>

record 's world =
  clientInstance :: "client option"
  clientInstanceError :: "error option"
  mongoOnce :: bool
  store :: 's
  calls :: "call list"

definition called :: "call \<Rightarrow> 's \<Rightarrow> 's world \<Rightarrow> 's world" where
  "called c s w = w\<lparr>store := s, calls := calls w @ [c]\<rparr>"

definition isDocumentCall :: "call \<Rightarrow> bool" where
  "isDocumentCall c = (case c of CallConnect u \<Rightarrow> False | CallPing p \<Rightarrow> False | _ \<Rightarrow> True)"

section \<open>GetMongoClient\<close>

text \<open>
  A call either returns a value or panics. A Go panic unwinds the callers one after the
  other, running their deferred calls, so a function whose callee panics panics too.
\<close>

datatype 'a outcome = Returns 'a | Panics

text \<open>
  The two driver calls of the initialization, each with its entry in the log, and the
  statement \<open>if err != nil { clientInstanceError = err }\<close> that follows each of them.
  \<open>Ping\<close> is a method of \<open>*mongo.Client\<close> that reads the fields of its receiver: called
  on the nil pointer it dereferences nil, which is a run-time panic, before the driver
  does anything.
\<close>

definition connectCall :: "'s driver \<Rightarrow> 's world \<Rightarrow> (client option \<times> error option) \<times> 's world" where
  "connectCall d w =
     (let (r, s1) = drvConnect d URI (store w) in (r, called (CallConnect URI) s1 w))"

definition pingCall ::
  "'s driver \<Rightarrow> client option \<Rightarrow> 's world \<Rightarrow> error option outcome \<times> 's world" where
  "pingCall d client w =
     (case client of
        None \<Rightarrow> (Panics, called (CallPing client) (store w) w)
      | Some c \<Rightarrow>
          (let (err, s2) = drvPing d client (store w)
           in (Returns err, called (CallPing client) s2 w)))"

definition recordError :: "error option \<Rightarrow> 's world \<Rightarrow> 's world" where
  "recordError err w = (if err \<noteq> None then w\<lparr>clientInstanceError := err\<rparr> else w)"

text \<open>
  The function literal handed to \<open>mongoOnce.Do\<close>. When \<open>Ping\<close> panics, the statements
  after it are not reached.
\<close>

definition initClient :: "'s driver \<Rightarrow> 's world \<Rightarrow> unit outcome \<times> 's world" where
  "initClient d w =
     (let ((client, err), w1) = connectCall d w;
          w2 = recordError err w1
      in case pingCall d client w2 of
           (Panics, w3) \<Rightarrow> (Panics, w3)
         | (Returns err', w3) \<Rightarrow>
             (let w4 = recordError err' w3
              in (Returns (), w4\<lparr>clientInstance := client\<rparr>)))"

text \<open>
  \<open>sync.Once.Do\<close>, one caller at a time: the body runs if the flag is not set yet. The
  store of the flag is deferred, so it is done when the body panics too, and the panic
  goes on to the caller of \<open>Do\<close>.
\<close>

definition onceDo ::
  "('s world \<Rightarrow> unit outcome \<times> 's world) \<Rightarrow> 's world \<Rightarrow> unit outcome \<times> 's world" where
  "onceDo f w =
     (if mongoOnce w then (Returns (), w)
      else (case f w of (r, w') \<Rightarrow> (r, w'\<lparr>mongoOnce := True\<rparr>)))"

definition GetMongoClient ::
  "'s driver \<Rightarrow> 's world \<Rightarrow> (client option \<times> error option) outcome \<times> 's world" where
  "GetMongoClient d w =
     (case onceDo (initClient d) w of
        (Panics, w') \<Rightarrow> (Panics, w')
      | (Returns u, w') \<Rightarrow> (Returns (clientInstance w', clientInstanceError w'), w'))"

section \<open>The store operations\<close>

definition expenseCollection :: "client option \<Rightarrow> collection" where
  "expenseCollection client = Collection (Database client DBName) ExpenseCollections"

definition CreateExpense ::
  "'s driver \<Rightarrow> Expense \<Rightarrow> 's world \<Rightarrow> error option outcome \<times> 's world" where
  "CreateExpense d expense w =
     (case GetMongoClient d w of
        (Panics, w1) \<Rightarrow> (Panics, w1)
      | (Returns (client, err), w1) \<Rightarrow>
          if err \<noteq> None then (Returns err, w1)
          else
            let collection = expenseCollection client;
                (err2, s2) = drvInsertOne d collection expense (store w1);
                w2 = called (CallInsertOne collection expense) s2 w1
            in if err2 \<noteq> None then (Returns err2, w2) else (Returns None, w2))"

text \<open>
  The loop \<open>for i, v := range list { insertableList[i] = v }\<close>. An index outside the
  slice panics in Go, so the loop returns \<open>None\<close> there.
\<close>

fun fillInsertable :: "nat \<Rightarrow> Expense list \<Rightarrow> iface list \<Rightarrow> iface list option" where
  "fillInsertable i [] insertableList = Some insertableList"
| "fillInsertable i (v # vs) insertableList =
     (if i < length insertableList
      then fillInsertable (Suc i) vs (insertableList[i := Boxed v])
      else None)"

definition CreateManyExpenses ::
  "'s driver \<Rightarrow> Expense list \<Rightarrow> 's world \<Rightarrow> error option outcome \<times> 's world" where
  "CreateManyExpenses d list w =
     (case fillInsertable 0 list (replicate (length list) INil) of
        None \<Rightarrow> (Panics, w)
      | Some insertableList \<Rightarrow>
          (case GetMongoClient d w of
             (Panics, w1) \<Rightarrow> (Panics, w1)
           | (Returns (client, err), w1) \<Rightarrow>
               if err \<noteq> None then (Returns err, w1)
               else
                 let collection = expenseCollection client;
                     (err2, s2) = drvInsertMany d collection insertableList (store w1);
                     w2 = called (CallInsertMany collection insertableList) s2 w1
                 in if err2 \<noteq> None then (Returns err2, w2) else (Returns None, w2)))"

definition GetExpensesByID ::
  "'s driver \<Rightarrow> string \<Rightarrow> 's world \<Rightarrow> (Expense \<times> error option) outcome \<times> 's world" where
  "GetExpensesByID d id' w =
     (let result = zeroExpense;
          filter = [(''expenseID'', BString id')]
      in case GetMongoClient d w of
           (Panics, w1) \<Rightarrow> (Panics, w1)
         | (Returns (client, err), w1) \<Rightarrow>
             if err \<noteq> None then (Returns (result, err), w1)
             else
               let collection = expenseCollection client;
                   ((result', err2), s2) = drvFindOne d collection filter result (store w1);
                   w2 = called (CallFindOne collection filter) s2 w1
               in if err2 \<noteq> None then (Returns (result', err2), w2)
                  else (Returns (result', None), w2))"

text \<open>
  The loop \<open>for cur.Next(...) { ... }\<close> of \<open>GetAllIssues\<close>. It leaves either by the
  \<open>return issues, err\<close> in its body (\<open>Inl\<close>) or because \<open>Next\<close> said no (\<open>Inr\<close>).
\<close>

fun iterate ::
  "cursor \<Rightarrow> Expense list \<Rightarrow> 's world \<Rightarrow> (Expense list \<times> error + Expense list) \<times> 's world" where
  "iterate [] issues w = (Inr issues, called CallCursorNext (store w) w)"
| "iterate (Inl err # cur) issues w =
     (Inl (issues, err),
      called CallCursorDecode (store w) (called CallCursorNext (store w) w))"
| "iterate (Inr t # cur) issues w =
     iterate cur (issues @ [t])
       (called CallCursorDecode (store w) (called CallCursorNext (store w) w))"

definition GetAllIssues ::
  "'s driver \<Rightarrow> 's world \<Rightarrow> (Expense list \<times> error option) outcome \<times> 's world" where
  "GetAllIssues d w =
     (let filter = [('''', BNil)];
          issues = []
      in case GetMongoClient d w of
           (Panics, w1) \<Rightarrow> (Panics, w1)
         | (Returns (client, err), w1) \<Rightarrow>
             if err \<noteq> None then (Returns (issues, err), w1)
             else
               let collection = expenseCollection client;
                   (found, s2) = drvFind d collection filter (store w1);
                   w2 = called (CallFind collection filter) s2 w1
               in (case found of
                     Inl findError \<Rightarrow> (Returns (issues, Some findError), w2)
                   | Inr cur \<Rightarrow>
                       (case iterate cur issues w2 of
                          (Inl (issues', err'), w3) \<Rightarrow> (Returns (issues', Some err'), w3)
                        | (Inr issues', w3) \<Rightarrow>
                            let w4 = called CallCursorClose (store w3) w3
                            in if length issues' = 0
                               then (Returns (issues', Some ErrNoDocuments), w4)
                               else (Returns (issues', None), w4))))"

definition DeleteExpense ::
  "'s driver \<Rightarrow> string \<Rightarrow> 's world \<Rightarrow> error option outcome \<times> 's world" where
  "DeleteExpense d code w =
     (let filter = [(''expenseID'', BString code)]
      in case GetMongoClient d w of
           (Panics, w1) \<Rightarrow> (Panics, w1)
         | (Returns (client, err), w1) \<Rightarrow>
             if err \<noteq> None then (Returns err, w1)
             else
               let collection = expenseCollection client;
                   ((n, err2), s2) = drvDeleteOne d collection filter (store w1);
                   w2 = called (CallDeleteOne collection filter) s2 w1
               in if err2 \<noteq> None then (Returns err2, w2) else (Returns None, w2))"

definition DeleteAll :: "'s driver \<Rightarrow> 's world \<Rightarrow> error option outcome \<times> 's world" where
  "DeleteAll d w =
     (let selector = [('''', BNil)]
      in case GetMongoClient d w of
           (Panics, w1) \<Rightarrow> (Panics, w1)
         | (Returns (client, err), w1) \<Rightarrow>
             if err \<noteq> None then (Returns err, w1)
             else
               let collection = expenseCollection client;
                   ((n, err2), s2) = drvDeleteMany d collection selector (store w1);
                   w2 = called (CallDeleteMany collection selector) s2 w1
               in if err2 \<noteq> None then (Returns err2, w2) else (Returns None, w2))"

section \<open>A process making requests\<close>

text \<open>
  The process starts with the package variables at their zero values. What it does
  afterwards is a sequence of calls of the seven functions, in any order. A call that
  panics ends there; the process goes on with the next request, as a server does that
  recovers the panics of its handlers.
\<close>

definition initialWorld :: "'s \<Rightarrow> 's world" where
  "initialWorld s =
     \<lparr>clientInstance = None, clientInstanceError = None, mongoOnce = False,
      store = s, calls = []\<rparr>"

datatype request =
    ReqGetMongoClient
  | ReqCreateExpense Expense
  | ReqCreateManyExpenses "Expense list"
  | ReqGetExpensesByID string
  | ReqGetAllIssues
  | ReqDeleteExpense string
  | ReqDeleteAll

fun serve :: "'s driver \<Rightarrow> request \<Rightarrow> 's world \<Rightarrow> 's world" where
  "serve d ReqGetMongoClient w = snd (GetMongoClient d w)"
| "serve d (ReqCreateExpense e) w = snd (CreateExpense d e w)"
| "serve d (ReqCreateManyExpenses es) w = snd (CreateManyExpenses d es w)"
| "serve d (ReqGetExpensesByID k) w = snd (GetExpensesByID d k w)"
| "serve d ReqGetAllIssues w = snd (GetAllIssues d w)"
| "serve d (ReqDeleteExpense k) w = snd (DeleteExpense d k w)"
| "serve d ReqDeleteAll w = snd (DeleteAll d w)"

fun serveAll :: "'s driver \<Rightarrow> request list \<Rightarrow> 's world \<Rightarrow> 's world" where
  "serveAll d [] w = w"
| "serveAll d (r # rs) w = serveAll d rs (serve d r w)"

text \<open>
  The part of a world that the provider owns, with the calls to \<open>Connect\<close> and \<open>Ping\<close>
  that were made so far.
\<close>

definition provider :: "'s world \<Rightarrow> client option \<times> error option \<times> bool \<times> call list" where
  "provider w =
     (clientInstance w, clientInstanceError w, mongoOnce w,
      filter (\<lambda>c. \<not> isDocumentCall c) (calls w))"

section \<open>Concurrent callers of GetMongoClient\<close>

text \<open>
  Several goroutines call \<open>GetMongoClient\<close> at once. Each is at one point of the function,
  with \<open>sync.Once.Do\<close> written out as the Go library has it: a first load of the done
  flag; if it is not set, \<open>doSlow\<close> locks the mutex of the \<open>Once\<close>, loads the flag
  again and, if it is still not set, runs the function literal and then, deferred, stores
  the flag and unlocks. The function literal is cut at every access to a package variable
  or to the driver, and so is the \<open>return\<close> statement, which reads the two variables one
  after the other. The local variables \<open>client\<close> and \<open>err\<close> of the literal travel with
  the point the goroutine is at. The points, each named for what the goroutine does next:
  \<^item> \<open>AtDo\<close>: the first \<open>o.done.Load()\<close> of \<open>Do\<close>;
  \<^item> \<open>AtLock\<close>: \<open>o.m.Lock()\<close> in \<open>doSlow\<close>;
  \<^item> \<open>AtRecheck\<close>: the second \<open>o.done.Load()\<close>, under the mutex;
  \<^item> \<open>AtConnect\<close>: \<open>client, err := mongo.Connect(...)\<close>;
  \<^item> \<open>AtConnectErr\<close>: \<open>if err != nil { clientInstanceError = err }\<close> after it;
  \<^item> \<open>AtPing\<close>: \<open>err = client.Ping(...)\<close>, which panics on the nil client;
  \<^item> \<open>AtPingErr\<close>: \<open>if err != nil { clientInstanceError = err }\<close> after it;
  \<^item> \<open>AtAssign\<close>: \<open>clientInstance = client\<close>;
  \<^item> \<open>AtStoreDone\<close>: the deferred \<open>o.done.Store(1)\<close>;
  \<^item> \<open>AtUnlock\<close>: the deferred \<open>o.m.Unlock()\<close>;
  \<^item> \<open>AtReadClient\<close> and \<open>AtReadError\<close>: the two reads of
    \<open>return clientInstance, clientInstanceError\<close>;
  \<^item> \<open>Returned\<close>: the call is over, with the pair it returned;
  \<^item> \<open>Panicked\<close>: the call is over, the panic has left \<open>GetMongoClient\<close>.
  The two deferred calls run when the function literal has returned and when it is
  panicking: the flag they carry says which. What becomes of a panic above
  \<open>GetMongoClient\<close> is its caller's business; here the goroutine ends and the others
  run on, as they do when the caller recovers.
\<close>

datatype pc =
    AtDo
  | AtLock
  | AtRecheck
  | AtConnect
  | AtConnectErr "client option" "error option"
  | AtPing "client option"
  | AtPingErr "client option" "error option"
  | AtAssign "client option"
  | AtStoreDone bool
  | AtUnlock bool
  | AtReadClient
  | AtReadError "client option"
  | Returned "client option" "error option"
  | Panicked

text \<open>
  A configuration: the shared world, the mutex of \<open>mongoOnce\<close>, and where each
  goroutine is.
\<close>

record 's config =
  shared :: "'s world"
  mutex :: bool
  threads :: "pc list"

text \<open>
  One step of goroutine \<open>i\<close>. A goroutine waiting for a locked mutex, one whose call is
  over and an index that names no goroutine leave the configuration as it is. Steps
  are atomic and take effect in the order they are scheduled in.
\<close>

definition stepThread :: "'s driver \<Rightarrow> nat \<Rightarrow> 's config \<Rightarrow> 's config" where
  "stepThread d i c =
     (if i < length (threads c) then
        (case threads c ! i of
           AtDo \<Rightarrow>
             c\<lparr>threads := (threads c)[i := if mongoOnce (shared c) then AtReadClient else AtLock]\<rparr>
         | AtLock \<Rightarrow>
             if mutex c then c
             else c\<lparr>mutex := True, threads := (threads c)[i := AtRecheck]\<rparr>
         | AtRecheck \<Rightarrow>
             c\<lparr>threads :=
                 (threads c)[i := if mongoOnce (shared c) then AtUnlock False else AtConnect]\<rparr>
         | AtConnect \<Rightarrow>
             (let ((client, err), w1) = connectCall d (shared c)
              in c\<lparr>shared := w1, threads := (threads c)[i := AtConnectErr client err]\<rparr>)
         | AtConnectErr client err \<Rightarrow>
             c\<lparr>shared := recordError err (shared c), threads := (threads c)[i := AtPing client]\<rparr>
         | AtPing client \<Rightarrow>
             (case pingCall d client (shared c) of
                (Panics, w3) \<Rightarrow>
                  c\<lparr>shared := w3, threads := (threads c)[i := AtStoreDone True]\<rparr>
              | (Returns err, w3) \<Rightarrow>
                  c\<lparr>shared := w3, threads := (threads c)[i := AtPingErr client err]\<rparr>)
         | AtPingErr client err \<Rightarrow>
             c\<lparr>shared := recordError err (shared c), threads := (threads c)[i := AtAssign client]\<rparr>
         | AtAssign client \<Rightarrow>
             c\<lparr>shared := (shared c)\<lparr>clientInstance := client\<rparr>,
               threads := (threads c)[i := AtStoreDone False]\<rparr>
         | AtStoreDone panicking \<Rightarrow>
             c\<lparr>shared := (shared c)\<lparr>mongoOnce := True\<rparr>,
               threads := (threads c)[i := AtUnlock panicking]\<rparr>
         | AtUnlock panicking \<Rightarrow>
             c\<lparr>mutex := False,
               threads := (threads c)[i := if panicking then Panicked else AtReadClient]\<rparr>
         | AtReadClient \<Rightarrow>
             c\<lparr>threads := (threads c)[i := AtReadError (clientInstance (shared c))]\<rparr>
         | AtReadError client \<Rightarrow>
             c\<lparr>threads := (threads c)[i := Returned client (clientInstanceError (shared c))]\<rparr>
         | Returned client err \<Rightarrow> c
         | Panicked \<Rightarrow> c)
      else c)"

text \<open>A run follows a schedule: the goroutine to step next, again and again.\<close>

fun run :: "'s driver \<Rightarrow> nat list \<Rightarrow> 's config \<Rightarrow> 's config" where
  "run d [] c = c"
| "run d (i # schedule) c = run d schedule (stepThread d i c)"

definition startConfig :: "'s world \<Rightarrow> nat \<Rightarrow> 's config" where
  "startConfig w n = \<lparr>shared = w, mutex = False, threads = replicate n AtDo\<rparr>"

text \<open>
  A schedule for two callers that both pass the first load before the flag is set: the
  first takes the mutex and runs the initialization to its end, the second waits for the
  mutex and then finds the flag set.
\<close>

definition twoCallers :: "nat list" where
  "twoCallers = [0, 1, 0, 1, 0, 0, 0, 0, 0, 0, 1, 1, 1, 1, 1]"

section \<open>Two drivers to run the program on\<close>

text \<open>
  A driver that gives the same answers whatever it is asked: what \<open>Connect\<close>, \<open>Ping\<close>
  and \<open>Find\<close> return is chosen, every other call succeeds and finds nothing.
\<close>

definition cannedDriver ::
  "client option \<times> error option \<Rightarrow> error option \<Rightarrow> error + cursor \<Rightarrow> unit driver" where
  "cannedDriver connectResult pingResult findResult =
     \<lparr>drvConnect = (\<lambda>uri s. (connectResult, s)),
      drvPing = (\<lambda>client s. (pingResult, s)),
      drvInsertOne = (\<lambda>c e s. (None, s)),
      drvInsertMany = (\<lambda>c es s. (None, s)),
      drvFindOne = (\<lambda>c f result s. ((result, Some ErrNoDocuments), s)),
      drvFind = (\<lambda>c f s. (findResult, s)),
      drvDeleteOne = (\<lambda>c f s. ((0, None), s)),
      drvDeleteMany = (\<lambda>c f s. ((0, None), s))\<rparr>"

text \<open>
  Modelled from the spec: the document store behind the driver. The MongoDB driver and
  server are imports of this repository, not code of it, so what an insert, a find and
  a delete do to the documents is taken from the spec: a collection is a sequence of
  documents; a filter on \<open>expenseID\<close> matches the documents whose field equals the value
  exactly, and the filter with the one empty element matches every document; find-one
  decodes the first match and reports "not found" when there is none; delete-one removes
  the first match and succeeds when there is none; delete-many removes every match.
  Connecting succeeds. What is stored by an insert is fixed by the struct tags of
  main.go and the document format: the tag \<open>bson:"_id"\<close> of \<open>ID\<close> has no \<open>omitempty\<close>,
  so the \<open>ID\<close> of the struct, the zero one too, is sent as the \<open>_id\<close> of the document
  and the store assigns none; \<open>_id\<close> is unique in a collection, so an insert whose \<open>_id\<close>
  is taken fails with a duplicate key error and adds nothing; and a date is stored in
  milliseconds, so the \<open>Date\<close> of a stored document is the one sent, cut to the millisecond.
\<close>

record memstore =
  docs :: "Expense list"

fun matchesE :: "string \<times> bval \<Rightarrow> Expense \<Rightarrow> bool" where
  "matchesE (k, v) doc =
     (if k = [] \<and> v = BNil then True
      else if k = ''expenseID'' then v = BString (ExpenseID doc)
      else if k = ''title'' then v = BString (Title doc)
      else False)"

definition matches :: "bsonD \<Rightarrow> Expense \<Rightarrow> bool" where
  "matches f doc = list_all (\<lambda>e. matchesE e doc) f"

fun deleteFirst :: "(Expense \<Rightarrow> bool) \<Rightarrow> Expense list \<Rightarrow> Expense list" where
  "deleteFirst P [] = []"
| "deleteFirst P (x # xs) = (if P x then xs else x # deleteFirst P xs)"

definition msTruncate :: "int \<Rightarrow> int" where
  "msTruncate t = (t div 1000000) * 1000000"

definition memInsert :: "Expense \<Rightarrow> memstore \<Rightarrow> error option \<times> memstore" where
  "memInsert e s =
     (if ID e \<in> set (map ID (docs s)) then (Some (DriverError ''E11000 duplicate key''), s)
      else (None, s\<lparr>docs := docs s @ [e\<lparr>Date := msTruncate (Date e)\<rparr>]\<rparr>))"

text \<open>A bulk insert is ordered: it stops at the first document that fails.\<close>

fun memInsertAll :: "iface list \<Rightarrow> memstore \<Rightarrow> error option \<times> memstore" where
  "memInsertAll [] s = (None, s)"
| "memInsertAll (INil # xs) s = (Some (DriverError ''nil document''), s)"
| "memInsertAll (Boxed e # xs) s =
     (case memInsert e s of
        (Some err, s') \<Rightarrow> (Some err, s')
      | (None, s') \<Rightarrow> memInsertAll xs s')"

definition memDriver :: "memstore driver" where
  "memDriver =
     \<lparr>drvConnect = (\<lambda>uri s. ((Some (Client 0), None), s)),
      drvPing = (\<lambda>client s. (None, s)),
      drvInsertOne = (\<lambda>c e s. memInsert e s),
      drvInsertMany = (\<lambda>c es s.
         if INil \<in> set es then (Some (DriverError ''nil document''), s)
         else memInsertAll es s),
      drvFindOne = (\<lambda>c f result s.
         case find (matches f) (docs s) of
           None \<Rightarrow> ((result, Some ErrNoDocuments), s)
         | Some doc \<Rightarrow> ((doc, None), s)),
      drvFind = (\<lambda>c f s. (Inr (map Inr (filter (matches f) (docs s))), s)),
      drvDeleteOne = (\<lambda>c f s.
         case find (matches f) (docs s) of
           None \<Rightarrow> ((0, None), s)
         | Some doc \<Rightarrow> ((1, None), s\<lparr>docs := deleteFirst (matches f) (docs s)\<rparr>)),
      drvDeleteMany = (\<lambda>c f s.
         ((length (filter (matches f) (docs s)), None),
          s\<lparr>docs := filter (\<lambda>doc. \<not> matches f doc) (docs s)\<rparr>))\<rparr>"

text \<open>An expense to try things on: 3.50, written as the bits of the \<open>float64\<close>.\<close>

definition lunch :: Expense where
  "lunch = \<lparr>ID = 0, ExpenseID = ''1d'', Title = ''First expense'', Amount = 0x400C000000000000,
     Date = 1700000000\<rparr>"

section \<open>Facts about the initialization\<close>

lemma connectCall_calls:
  "calls (snd (connectCall d w)) = calls w @ [CallConnect URI]"
  by (simp add: connectCall_def called_def split_beta)

lemma pingCall_provider:
  "clientInstance (snd (pingCall d client w)) = clientInstance w"
  "clientInstanceError (snd (pingCall d client w)) = clientInstanceError w"
  "mongoOnce (snd (pingCall d client w)) = mongoOnce w"
  "calls (snd (pingCall d client w)) = calls w @ [CallPing client]"
  by (simp_all add: pingCall_def called_def split_beta split: option.splits)

lemma initClient_calls:
  "calls (snd (initClient d w)) =
     calls w @ [CallConnect URI, CallPing (fst (fst (drvConnect d URI (store w))))]"
  by (cases "fst (fst (drvConnect d URI (store w)))")
     (simp_all add: initClient_def connectCall_def pingCall_def recordError_def called_def
        Let_def split_beta)

lemma initClient_mongoOnce: "mongoOnce (snd (initClient d w)) = mongoOnce w"
  by (cases "fst (fst (drvConnect d URI (store w)))")
     (simp_all add: initClient_def connectCall_def pingCall_def recordError_def called_def
        Let_def split_beta)

lemma GetMongoClient_done:
  "mongoOnce w \<Longrightarrow>
   GetMongoClient d w = (Returns (clientInstance w, clientInstanceError w), w)"
  by (simp add: GetMongoClient_def onceDo_def)

lemma GetMongoClient_snd:
  "snd (GetMongoClient d w) =
     (if mongoOnce w then w else (snd (initClient d w))\<lparr>mongoOnce := True\<rparr>)"
  by (simp add: GetMongoClient_def onceDo_def split_beta split: outcome.splits)

lemma GetMongoClient_mongoOnce: "mongoOnce (snd (GetMongoClient d w))"
  by (simp add: GetMongoClient_snd)

lemma GetMongoClient_result:
  "GetMongoClient d w = (Returns (client, err), w1) \<Longrightarrow>
   client = clientInstance w1 \<and> err = clientInstanceError w1 \<and> mongoOnce w1"
  by (auto simp add: GetMongoClient_def onceDo_def split_beta split: outcome.splits if_splits)

lemma GetMongoClient_panics:
  assumes "\<not> mongoOnce w" and "drvConnect d URI (store w) = ((None, err), s1)"
  shows "GetMongoClient d w =
     (Panics,
      (recordError err (called (CallConnect URI) s1 w))
        \<lparr>calls := calls w @ [CallConnect URI, CallPing None], mongoOnce := True\<rparr>)"
  using assms
  by (simp add: GetMongoClient_def onceDo_def initClient_def connectCall_def pingCall_def
      recordError_def called_def)

section \<open>Each operation, given what the acquisition returned\<close>

lemma fillInsertable_eq:
  "i + length vs \<le> length acc \<Longrightarrow>
   fillInsertable i vs acc = Some (take i acc @ map Boxed vs @ drop (i + length vs) acc)"
proof (induction vs arbitrary: i acc)
  case Nil
  then show ?case by simp
next
  case (Cons v vs)
  then have "i < length acc" by simp
  moreover have "Suc i + length vs \<le> length (acc[i := Boxed v])" using Cons.prems by simp
  ultimately show ?case using Cons.IH [of "Suc i" "acc[i := Boxed v]"]
    by (simp add: take_Suc_conv_app_nth upd_conv_take_nth_drop add.commute)
qed

lemma fillInsertable_all:
  "fillInsertable 0 list (replicate (length list) INil) = Some (map Boxed list)"
  by (simp add: fillInsertable_eq)

lemma CreateExpense_failed:
  "GetMongoClient d w = (Returns (client, Some e), w1) \<Longrightarrow> CreateExpense d x w = (Returns (Some e), w1)"
  by (simp add: CreateExpense_def)

lemma CreateManyExpenses_failed:
  "GetMongoClient d w = (Returns (client, Some e), w1) \<Longrightarrow>
   CreateManyExpenses d xs w = (Returns (Some e), w1)"
  by (simp add: CreateManyExpenses_def fillInsertable_all)

lemma GetExpensesByID_failed:
  "GetMongoClient d w = (Returns (client, Some e), w1) \<Longrightarrow>
   GetExpensesByID d k w = (Returns (zeroExpense, Some e), w1)"
  by (simp add: GetExpensesByID_def)

lemma GetAllIssues_failed:
  "GetMongoClient d w = (Returns (client, Some e), w1) \<Longrightarrow> GetAllIssues d w = (Returns ([], Some e), w1)"
  by (simp add: GetAllIssues_def)

lemma DeleteExpense_failed:
  "GetMongoClient d w = (Returns (client, Some e), w1) \<Longrightarrow> DeleteExpense d k w = (Returns (Some e), w1)"
  by (simp add: DeleteExpense_def)

lemma DeleteAll_failed:
  "GetMongoClient d w = (Returns (client, Some e), w1) \<Longrightarrow> DeleteAll d w = (Returns (Some e), w1)"
  by (simp add: DeleteAll_def)

lemma GetMongoClient_document_calls:
  "filter isDocumentCall (calls (snd (GetMongoClient d w))) = filter isDocumentCall (calls w)"
  by (simp add: GetMongoClient_snd initClient_calls isDocumentCall_def)

lemma GetAllIssues_panicked:
  "GetMongoClient d w = (Panics, w1) \<Longrightarrow> GetAllIssues d w = (Panics, w1)"
  by (simp add: GetAllIssues_def)

section \<open>Each operation, once the acquisition has succeeded\<close>

lemma CreateExpense_acquired:
  "GetMongoClient d w = (Returns (client, None), w1) \<Longrightarrow>
   CreateExpense d x w =
     (Returns (fst (drvInsertOne d (expenseCollection client) x (store w1))),
      called (CallInsertOne (expenseCollection client) x)
        (snd (drvInsertOne d (expenseCollection client) x (store w1))) w1)"
  by (auto simp add: CreateExpense_def Let_def split_beta)

lemma CreateManyExpenses_acquired:
  "GetMongoClient d w = (Returns (client, None), w1) \<Longrightarrow>
   CreateManyExpenses d xs w =
     (Returns (fst (drvInsertMany d (expenseCollection client) (map Boxed xs) (store w1))),
      called (CallInsertMany (expenseCollection client) (map Boxed xs))
        (snd (drvInsertMany d (expenseCollection client) (map Boxed xs) (store w1))) w1)"
  by (auto simp add: CreateManyExpenses_def fillInsertable_all Let_def split_beta)

lemma GetExpensesByID_acquired:
  "GetMongoClient d w = (Returns (client, None), w1) \<Longrightarrow>
   GetExpensesByID d k w =
     (Returns (fst (drvFindOne d (expenseCollection client) [(''expenseID'', BString k)]
        zeroExpense (store w1))),
      called (CallFindOne (expenseCollection client) [(''expenseID'', BString k)])
        (snd (drvFindOne d (expenseCollection client) [(''expenseID'', BString k)] zeroExpense (store w1))) w1)"
  by (auto simp add: GetExpensesByID_def Let_def split_beta prod_eq_iff)

lemma DeleteExpense_acquired:
  "GetMongoClient d w = (Returns (client, None), w1) \<Longrightarrow>
   DeleteExpense d k w =
     (Returns (snd (fst (drvDeleteOne d (expenseCollection client) [(''expenseID'', BString k)]
        (store w1)))),
      called (CallDeleteOne (expenseCollection client) [(''expenseID'', BString k)])
        (snd (drvDeleteOne d (expenseCollection client) [(''expenseID'', BString k)] (store w1))) w1)"
  by (auto simp add: DeleteExpense_def Let_def split_beta)

lemma DeleteAll_acquired:
  "GetMongoClient d w = (Returns (client, None), w1) \<Longrightarrow>
   DeleteAll d w =
     (Returns (snd (fst (drvDeleteMany d (expenseCollection client) [([], BNil)] (store w1)))),
      called (CallDeleteMany (expenseCollection client) [([], BNil)])
        (snd (drvDeleteMany d (expenseCollection client) [([], BNil)] (store w1))) w1)"
  by (auto simp add: DeleteAll_def Let_def split_beta)

text \<open>The pairs of calls that \<open>n\<close> rounds of the loop leave in the log.\<close>

lemma iterate_decoded:
  "iterate (map Inr xs) issues w =
     (Inr (issues @ xs),
      w\<lparr>calls := calls w @ concat (replicate (length xs) [CallCursorNext, CallCursorDecode])
          @ [CallCursorNext]\<rparr>)"
  by (induction xs arbitrary: issues w) (simp_all add: called_def)

lemma iterate_undecodable:
  "iterate (map Inr xs @ Inl e # rest) issues w =
     (Inl (issues @ xs, e),
      w\<lparr>calls := calls w
          @ concat (replicate (Suc (length xs)) [CallCursorNext, CallCursorDecode])\<rparr>)"
proof (induction xs arbitrary: issues w)
  case Nil
  show ?case by (simp add: called_def)
next
  case (Cons x xs)
  show ?case by (simp add: Cons.IH called_def replicate_append_same)
qed

lemma cursor_cases:
  fixes cur :: cursor
  shows "(\<exists>xs. cur = map Inr xs) \<or> (\<exists>xs e rest. cur = map Inr xs @ Inl e # rest)"
proof (induction cur)
  case Nil
  show ?case by simp
next
  case (Cons item cur)
  show ?case
  proof (cases item)
    case (Inl e)
    then have "item # cur = map Inr [] @ Inl e # cur" by simp
    then show ?thesis by (intro disjI2 exI)
  next
    case (Inr t)
    from Cons.IH show ?thesis
    proof
      assume "\<exists>xs. cur = map Inr xs"
      then obtain xs where "cur = map Inr xs" ..
      with Inr have "item # cur = map Inr (t # xs)" by simp
      then show ?thesis by (intro disjI1 exI)
    next
      assume "\<exists>xs e rest. cur = map Inr xs @ Inl e # rest"
      then obtain xs e rest where "cur = map Inr xs @ Inl e # rest" by blast
      with Inr have "item # cur = map Inr (t # xs) @ Inl e # rest" by simp
      then show ?thesis by (intro disjI2 exI)
    qed
  qed
qed

lemma GetAllIssues_find_failed:
  "GetMongoClient d w = (Returns (client, None), w1) \<Longrightarrow>
   drvFind d (expenseCollection client) [([], BNil)] (store w1) = (Inl e, s2) \<Longrightarrow>
   GetAllIssues d w = (Returns ([], Some e), called (CallFind (expenseCollection client) [([], BNil)]) s2 w1)"
  by (simp add: GetAllIssues_def)

lemma GetAllIssues_decoded:
  "GetMongoClient d w = (Returns (client, None), w1) \<Longrightarrow>
   drvFind d (expenseCollection client) [([], BNil)] (store w1) = (Inr (map Inr xs), s2) \<Longrightarrow>
   GetAllIssues d w =
     (Returns (xs, if xs = [] then Some ErrNoDocuments else None),
      w1\<lparr>store := s2,
         calls := calls w1 @ CallFind (expenseCollection client) [([], BNil)]
           # concat (replicate (length xs) [CallCursorNext, CallCursorDecode])
           @ [CallCursorNext, CallCursorClose]\<rparr>)"
  by (simp add: GetAllIssues_def iterate_decoded called_def)

lemma GetAllIssues_undecodable:
  "GetMongoClient d w = (Returns (client, None), w1) \<Longrightarrow>
   drvFind d (expenseCollection client) [([], BNil)] (store w1)
     = (Inr (map Inr xs @ Inl e # rest), s2) \<Longrightarrow>
   GetAllIssues d w =
     (Returns (xs, Some e),
      w1\<lparr>store := s2,
         calls := calls w1 @ CallFind (expenseCollection client) [([], BNil)]
           # concat (replicate (Suc (length xs)) [CallCursorNext, CallCursorDecode])\<rparr>)"
  by (simp add: GetAllIssues_def iterate_undecodable called_def)

section \<open>What an operation leaves of the provider's state\<close>

lemma GetAllIssues_cases:
  assumes acq: "GetMongoClient d w = (Returns (client, None), w1)"
  obtains e s2 where
      "GetAllIssues d w = (Returns ([], Some e), called (CallFind (expenseCollection client) [([], BNil)]) s2 w1)"
    | xs s2 where
      "drvFind d (expenseCollection client) [([], BNil)] (store w1) = (Inr (map Inr xs), s2)"
      "GetAllIssues d w =
         (Returns (xs, if xs = [] then Some ErrNoDocuments else None),
          w1\<lparr>store := s2,
             calls := calls w1 @ CallFind (expenseCollection client) [([], BNil)]
               # concat (replicate (length xs) [CallCursorNext, CallCursorDecode])
               @ [CallCursorNext, CallCursorClose]\<rparr>)"
    | xs e rest s2 where
      "drvFind d (expenseCollection client) [([], BNil)] (store w1)
         = (Inr (map Inr xs @ Inl e # rest), s2)"
      "GetAllIssues d w =
         (Returns (xs, Some e),
          w1\<lparr>store := s2,
             calls := calls w1 @ CallFind (expenseCollection client) [([], BNil)]
               # concat (replicate (Suc (length xs)) [CallCursorNext, CallCursorDecode])\<rparr>)"
proof -
  obtain found s2 where f: "drvFind d (expenseCollection client) [([], BNil)] (store w1) = (found, s2)"
    by (cases "drvFind d (expenseCollection client) [([], BNil)] (store w1)")
  show thesis
  proof (cases found)
    case (Inl e)
    with f have "drvFind d (expenseCollection client) [([], BNil)] (store w1) = (Inl e, s2)"
      by simp
    from GetAllIssues_find_failed [OF acq this] show thesis by (rule that(1))
  next
    case (Inr cur)
    from cursor_cases [of cur] show thesis
    proof
      assume "\<exists>xs. cur = map Inr xs"
      then obtain xs where "cur = map Inr xs" ..
      with f Inr have "drvFind d (expenseCollection client) [([], BNil)] (store w1) = (Inr (map Inr xs), s2)"
        by simp
      from this GetAllIssues_decoded [OF acq this] show thesis by (rule that(2))
    next
      assume "\<exists>xs e rest. cur = map Inr xs @ Inl e # rest"
      then obtain xs e rest where "cur = map Inr xs @ Inl e # rest" by blast
      with f Inr have "drvFind d (expenseCollection client) [([], BNil)] (store w1)
          = (Inr (map Inr xs @ Inl e # rest), s2)"
        by simp
      from this GetAllIssues_undecodable [OF acq this] show thesis by (rule that(3))
    qed
  qed
qed

lemma provider_called:
  "isDocumentCall c \<Longrightarrow> provider (called c s w) = provider w"
  by (simp add: provider_def called_def)

lemma concat_replicate_document_calls:
  "filter (\<lambda>c. \<not> isDocumentCall c) (concat (replicate n [CallCursorNext, CallCursorDecode])) = []"
  by (induction n) (simp_all add: isDocumentCall_def)

lemma provider_GetAllIssues:
  assumes "mongoOnce w"
  shows "provider (snd (GetAllIssues d w)) = provider w"
proof (cases "clientInstanceError w")
  case (Some e)
  with assms have "GetMongoClient d w = (Returns (clientInstance w, Some e), w)"
    by (simp add: GetMongoClient_done)
  then show ?thesis by (simp add: GetAllIssues_failed)
next
  case None
  with assms have acq: "GetMongoClient d w = (Returns (clientInstance w, None), w)"
    by (simp add: GetMongoClient_done)
  show ?thesis
  proof (cases rule: GetAllIssues_cases [OF acq])
    case (1 e s2)
    then show ?thesis by (simp add: provider_called isDocumentCall_def)
  next
    case (2 xs s2)
    then show ?thesis
      by (simp add: provider_def concat_replicate_document_calls isDocumentCall_def)
  next
    case (3 xs e rest s2)
    then show ?thesis
      using concat_replicate_document_calls [of "Suc (length xs)"]
      by (simp add: provider_def isDocumentCall_def del: replicate.simps)
  qed
qed

lemma provider_serve:
  assumes "mongoOnce w"
  shows "provider (serve d r w) = provider w"
proof (cases "clientInstanceError w")
  case (Some e)
  with assms have acq: "GetMongoClient d w = (Returns (clientInstance w, Some e), w)"
    by (simp add: GetMongoClient_done)
  show ?thesis
    by (cases r)
       (simp_all add: acq CreateExpense_failed [OF acq] CreateManyExpenses_failed [OF acq]
          GetExpensesByID_failed [OF acq] GetAllIssues_failed [OF acq]
          DeleteExpense_failed [OF acq] DeleteAll_failed [OF acq])
next
  case None
  with assms have acq: "GetMongoClient d w = (Returns (clientInstance w, None), w)"
    by (simp add: GetMongoClient_done)
  show ?thesis
    by (cases r)
       (simp_all add: acq CreateExpense_acquired [OF acq] CreateManyExpenses_acquired [OF acq]
          GetExpensesByID_acquired [OF acq] provider_GetAllIssues [OF assms]
          DeleteExpense_acquired [OF acq] DeleteAll_acquired [OF acq]
          provider_called isDocumentCall_def)
qed

lemma provider_serveAll:
  "mongoOnce w \<Longrightarrow> provider (serveAll d rs w) = provider w"
proof (induction rs arbitrary: w)
  case Nil
  show ?case by simp
next
  case (Cons r rs)
  have eq: "provider (serve d r w) = provider w" using Cons.prems by (rule provider_serve)
  then have "mongoOnce (serve d r w)" using Cons.prems by (simp add: provider_def)
  then have "provider (serveAll d rs (serve d r w)) = provider (serve d r w)" by (rule Cons.IH)
  with eq show ?case by simp
qed

section \<open>Runs on the two drivers\<close>

lemma canned_acquired:
  "GetMongoClient (cannedDriver (Some (Client 7), None) None found) (initialWorld ())
   = (Returns (Some (Client 7), None),
      \<lparr>clientInstance = Some (Client 7), clientInstanceError = None, mongoOnce = True,
       store = (), calls = [CallConnect URI, CallPing (Some (Client 7))]\<rparr>)"
  by (simp add: GetMongoClient_def onceDo_def initClient_def connectCall_def
      pingCall_def recordError_def called_def cannedDriver_def initialWorld_def)

section \<open>Facts about the store of the spec\<close>

lemma matches_expenseID [simp]:
  "matches [(''expenseID'', BString k)] doc \<longleftrightarrow> ExpenseID doc = k"
  by (auto simp add: matches_def)

lemma mem_acquired:
  assumes "clientInstanceError w = None"
  obtains client w1 where "GetMongoClient memDriver w = (Returns (client, None), w1)"
    and "store w1 = store w"
proof (cases "mongoOnce w")
  case True
  with assms have "GetMongoClient memDriver w = (Returns (clientInstance w, None), w)"
    by (simp add: GetMongoClient_done)
  then show thesis using that by blast
next
  case False
  with assms have "GetMongoClient memDriver w
      = (Returns (Some (Client 0), None),
         w\<lparr>calls := calls w @ [CallConnect URI, CallPing (Some (Client 0))],
           clientInstance := Some (Client 0), mongoOnce := True\<rparr>)"
    by (simp add: GetMongoClient_def onceDo_def initClient_def connectCall_def pingCall_def
        recordError_def called_def memDriver_def)
  then show thesis using that by simp
qed

lemma find_append_fresh:
  "\<forall>x \<in> set xs. \<not> P x \<Longrightarrow> P y \<Longrightarrow> find P (xs @ [y]) = Some y"
  by (induction xs) simp_all

lemma deleteFirst_length:
  "length (deleteFirst P xs) = (if \<exists>x \<in> set xs. P x then length xs - 1 else length xs)"
  by (induction xs) (auto dest: length_pos_if_in_set)

lemma deleteFirst_others:
  "filter (\<lambda>x. \<not> P x) (deleteFirst P xs) = filter (\<lambda>x. \<not> P x) xs"
  by (induction xs) auto

lemma deleteFirst_no_match: "\<forall>x \<in> set xs. \<not> P x \<Longrightarrow> deleteFirst P xs = xs"
  by (induction xs) auto

lemma find_None_deleteFirst: "find P xs = None \<Longrightarrow> deleteFirst P xs = xs"
  by (rule deleteFirst_no_match) (simp add: find_None_iff)

lemma matches_expenseID_fun:
  "matches [(''expenseID'', BString k)] = (\<lambda>doc. ExpenseID doc = k)"
  by (rule ext) simp

lemma mem_DeleteOne_error: "snd (fst (drvDeleteOne memDriver c f s)) = None"
  by (simp add: memDriver_def split: option.splits)

lemma mem_DeleteOne_docs:
  "docs (snd (drvDeleteOne memDriver c f s)) = deleteFirst (matches f) (docs s)"
  by (simp add: memDriver_def find_None_deleteFirst split: option.splits)

section \<open>Claims\<close>

text \<open>
  C1: all callers observe the same outcome. Two goroutines call \<open>GetMongoClient\<close> at once
  on a driver whose \<open>Connect\<close> fails, returning the nil client with its error. Both find
  the flag not set; the first takes the mutex, records the error of \<open>Connect\<close> and calls
  \<open>Ping\<close> on the nil client, which panics. The deferred calls set the flag and release
  the mutex, and the panic leaves \<open>GetMongoClient\<close>. The second goroutine then finds the
  flag set and returns the nil handle with the error of \<open>Connect\<close>. There has been one
  \<open>Connect\<close> and one \<open>Ping\<close>, but the two callers have not observed the same outcome.
\<close>

theorem callers_of_a_failed_connect_differ:
  "run (cannedDriver (None, Some (DriverError ''refused'')) None (Inr [])) twoCallers
     (startConfig (initialWorld ()) 2)
   = \<lparr>shared = \<lparr>clientInstance = None, clientInstanceError = Some (DriverError ''refused''),
         mongoOnce = True, store = (), calls = [CallConnect URI, CallPing None]\<rparr>,
      mutex = False,
      threads = [Panicked, Returned None (Some (DriverError ''refused''))]\<rparr>"
  by (simp add: twoCallers_def startConfig_def initialWorld_def stepThread_def connectCall_def
      pingCall_def recordError_def called_def cannedDriver_def numeral_2_eq_2)

text \<open>
  C2: once the do-once guard has fired, \<open>GetMongoClient\<close> returns the cached handle and
  the recorded error and changes nothing, so it calls neither \<open>Connect\<close> nor \<open>Ping\<close>;
  and whatever requests the process serves afterwards, the flag stays set, the handle and
  the error stay what they were, no call to \<open>Connect\<close> or \<open>Ping\<close> is added to the log,
  and a later \<open>GetMongoClient\<close> still returns that first outcome.
\<close>

theorem once_fired_outcome_permanent:
  assumes "mongoOnce w"
  shows "GetMongoClient d w = (Returns (clientInstance w, clientInstanceError w), w)
    \<and> (let w' = serveAll d rs w
       in mongoOnce w'
        \<and> clientInstance w' = clientInstance w
        \<and> clientInstanceError w' = clientInstanceError w
        \<and> filter (\<lambda>c. \<not> isDocumentCall c) (calls w') = filter (\<lambda>c. \<not> isDocumentCall c) (calls w)
        \<and> GetMongoClient d w' = (Returns (clientInstance w, clientInstanceError w), w'))"
proof -
  have p: "provider (serveAll d rs w) = provider w" using assms by (rule provider_serveAll)
  then have "mongoOnce (serveAll d rs w)" using assms by (simp add: provider_def)
  then have "GetMongoClient d (serveAll d rs w) =
      (Returns (clientInstance (serveAll d rs w), clientInstanceError (serveAll d rs w)),
       serveAll d rs w)"
    by (rule GetMongoClient_done)
  with p assms show ?thesis by (simp add: provider_def GetMongoClient_done Let_def)
qed

theorem once_fired_outcome_permanent_witness:
  "mongoOnce (snd (GetMongoClient
       (cannedDriver (Some (Client 7), None) (Some (DriverError ''unreachable'')) (Inr []))
       (initialWorld ())))
   \<and> fst (GetMongoClient (cannedDriver (Some (Client 8), None) None (Inr []))
        (serveAll (cannedDriver (Some (Client 8), None) None (Inr []))
           [ReqGetAllIssues, ReqDeleteExpense ''1d'']
           (snd (GetMongoClient
              (cannedDriver (Some (Client 7), None) (Some (DriverError ''unreachable'')) (Inr []))
              (initialWorld ())))))
     = Returns (Some (Client 7), Some (DriverError ''unreachable''))"
proof -
  let ?w = "snd (GetMongoClient
       (cannedDriver (Some (Client 7), None) (Some (DriverError ''unreachable'')) (Inr []))
       (initialWorld ()))"
  have m: "mongoOnce ?w" by (rule GetMongoClient_mongoOnce)
  have c: "clientInstance ?w = Some (Client 7)"
    by (simp add: GetMongoClient_def onceDo_def initClient_def connectCall_def
        pingCall_def recordError_def called_def cannedDriver_def initialWorld_def)
  have e: "clientInstanceError ?w = Some (DriverError ''unreachable'')"
    by (simp add: GetMongoClient_def onceDo_def initClient_def connectCall_def
        pingCall_def recordError_def called_def cannedDriver_def initialWorld_def)
  from once_fired_outcome_permanent [OF m, of "cannedDriver (Some (Client 8), None) None (Inr [])"
      "[ReqGetAllIssues, ReqDeleteExpense ''1d'']"] m c e
  show ?thesis by (simp add: Let_def)
qed

text \<open>
  C3: when the connect step fails, its error is what the callers receive. The code does
  not return after a failed \<open>Connect\<close>: it records the error and goes on to call \<open>Ping\<close>
  on the client that \<open>Connect\<close> returned. On a driver whose \<open>Connect\<close> fails, returning the
  nil client with its error, the first call of \<open>GetMongoClient\<close> panics in \<open>Ping\<close>: the
  caller of that initialization round receives no error at all.
\<close>

theorem failed_connect_panics_in_ping:
  "GetMongoClient (cannedDriver (None, Some (DriverError ''refused'')) None (Inr []))
     (initialWorld ())
   = (Panics,
      \<lparr>clientInstance = None, clientInstanceError = Some (DriverError ''refused''),
       mongoOnce = True, store = (), calls = [CallConnect URI, CallPing None]\<rparr>)"
  by (simp add: GetMongoClient_def onceDo_def initClient_def connectCall_def
      pingCall_def recordError_def called_def cannedDriver_def initialWorld_def)

text \<open>
  C4: whenever the acquisition by \<open>GetMongoClient\<close> returns an error, each of the six
  operations returns that same error (with the zero \<open>Expense\<close> or the empty slice where
  it returns a value too) and ends in the very world the acquisition left, whose log has
  the document calls it had before and no other: no insert, find or delete was attempted.
\<close>

theorem acquisition_error_returned_unchanged:
  assumes "GetMongoClient d w = (Returns (client, Some e), w1)"
  shows "CreateExpense d x w = (Returns (Some e), w1)
    \<and> CreateManyExpenses d xs w = (Returns (Some e), w1)
    \<and> GetExpensesByID d k w = (Returns (zeroExpense, Some e), w1)
    \<and> GetAllIssues d w = (Returns ([], Some e), w1)
    \<and> DeleteExpense d k w = (Returns (Some e), w1)
    \<and> DeleteAll d w = (Returns (Some e), w1)
    \<and> filter isDocumentCall (calls w1) = filter isDocumentCall (calls w)"
proof -
  have "filter isDocumentCall (calls (snd (GetMongoClient d w))) = filter isDocumentCall (calls w)"
    by (rule GetMongoClient_document_calls)
  then have "filter isDocumentCall (calls w1) = filter isDocumentCall (calls w)"
    using assms by simp
  with assms show ?thesis
    by (simp add: CreateExpense_failed CreateManyExpenses_failed GetExpensesByID_failed
        GetAllIssues_failed DeleteExpense_failed DeleteAll_failed)
qed

theorem acquisition_error_returned_unchanged_witness:
  "fst (GetMongoClient
       (cannedDriver (Some (Client 7), None) (Some (DriverError ''unreachable'')) (Inr []))
       (initialWorld ()))
     = Returns (Some (Client 7), Some (DriverError ''unreachable''))
   \<and> fst (CreateExpense
       (cannedDriver (Some (Client 7), None) (Some (DriverError ''unreachable'')) (Inr []))
       zeroExpense (initialWorld ()))
     = Returns (Some (DriverError ''unreachable''))
   \<and> fst (GetAllIssues
       (cannedDriver (Some (Client 7), None) (Some (DriverError ''unreachable'')) (Inr []))
       (initialWorld ()))
     = Returns ([], Some (DriverError ''unreachable''))
   \<and> calls (snd (DeleteExpense
       (cannedDriver (Some (Client 7), None) (Some (DriverError ''unreachable'')) (Inr []))
       ''1d'' (initialWorld ())))
     = [CallConnect URI, CallPing (Some (Client 7))]"
proof -
  let ?d = "cannedDriver (Some (Client 7), None) (Some (DriverError ''unreachable'')) (Inr [])"
  have r: "fst (GetMongoClient ?d (initialWorld ()))
      = Returns (Some (Client 7), Some (DriverError ''unreachable''))"
    by (simp add: GetMongoClient_def onceDo_def initClient_def connectCall_def
        pingCall_def recordError_def called_def cannedDriver_def initialWorld_def)
  have c: "calls (snd (GetMongoClient ?d (initialWorld ())))
      = [CallConnect URI, CallPing (Some (Client 7))]"
    by (simp add: GetMongoClient_def onceDo_def initClient_def connectCall_def
        pingCall_def recordError_def called_def cannedDriver_def initialWorld_def)
  have a: "GetMongoClient ?d (initialWorld ())
      = (Returns (Some (Client 7), Some (DriverError ''unreachable'')),
         snd (GetMongoClient ?d (initialWorld ())))"
    using r by (simp add: prod_eq_iff)
  from acquisition_error_returned_unchanged [OF a, of zeroExpense "[]" "''1d''"] r c
  show ?thesis by simp
qed

text \<open>
  C5: when the acquisition succeeds and \<open>Find\<close> gives a cursor with no documents,
  \<open>GetAllIssues\<close> returns the empty slice with \<open>mongo.ErrNoDocuments\<close>; and on no
  driver and in no world does it return the empty slice with a nil error.
\<close>

theorem no_documents_is_not_found:
  assumes "GetMongoClient d w = (Returns (client, None), w1)"
    and "drvFind d (expenseCollection client) [([], BNil)] (store w1) = (Inr [], s2)"
  shows "fst (GetAllIssues d w) = Returns ([], Some ErrNoDocuments)
    \<and> fst (GetAllIssues d' w') \<noteq> Returns ([], None)"
proof -
  have "drvFind d (expenseCollection client) [([], BNil)] (store w1) = (Inr (map Inr []), s2)"
    using assms(2) by simp
  from GetAllIssues_decoded [OF assms(1) this]
  have first: "fst (GetAllIssues d w) = Returns ([], Some ErrNoDocuments)" by simp
  have second: "fst (GetAllIssues d' w') \<noteq> Returns ([], None)"
  proof (cases "fst (GetMongoClient d' w')")
    case Panics
    then have "GetMongoClient d' w' = (Panics, snd (GetMongoClient d' w'))"
      by (simp add: prod_eq_iff)
    from GetAllIssues_panicked [OF this] show ?thesis by simp
  next
    case (Returns r)
    show ?thesis
    proof (cases "snd r")
      case (Some e)
      with Returns have "GetMongoClient d' w'
          = (Returns (fst r, Some e), snd (GetMongoClient d' w'))"
        by (simp add: prod_eq_iff)
      from GetAllIssues_failed [OF this] show ?thesis by simp
    next
      case None
      with Returns have acq: "GetMongoClient d' w'
          = (Returns (fst r, None), snd (GetMongoClient d' w'))"
        by (simp add: prod_eq_iff)
      show ?thesis
        by (cases rule: GetAllIssues_cases [OF acq]) simp_all
    qed
  qed
  from first second show ?thesis by simp
qed

theorem no_documents_is_not_found_witness:
  "fst (GetMongoClient (cannedDriver (Some (Client 7), None) None (Inr [])) (initialWorld ()))
     = Returns (Some (Client 7), None)
   \<and> fst (GetAllIssues (cannedDriver (Some (Client 7), None) None (Inr [])) (initialWorld ()))
     = Returns ([], Some ErrNoDocuments)"
proof -
  let ?d = "cannedDriver (Some (Client 7), None) None (Inr [])"
  have f: "drvFind ?d (expenseCollection (Some (Client 7))) [([], BNil)]
      (store \<lparr>clientInstance = Some (Client 7), clientInstanceError = None, mongoOnce = True,
       store = (), calls = [CallConnect URI, CallPing (Some (Client 7))]\<rparr>) = (Inr [], ())"
    by (simp add: cannedDriver_def)
  from no_documents_is_not_found [OF canned_acquired f, where d' = ?d and w' = "initialWorld ()"]
  show ?thesis
    by (simp add: canned_acquired)
qed

text \<open>
  C6, amended: on the store of the spec, when the provider has no error recorded and no
  document of the collection has the \<open>expenseID\<close> of \<open>e\<close> or the identifier of \<open>e\<close>,
  \<open>CreateExpense e\<close> succeeds and \<open>GetExpensesByID\<close> of that \<open>expenseID\<close>, run right after
  it, succeeds and returns \<open>e\<close> with its date cut to the millisecond: the identifier, the
  \<open>expenseID\<close>, the title and the amount are those of \<open>e\<close>, and the date is at most \<open>e\<close>'s
  and less than a millisecond before it.
\<close>

theorem create_then_find_round_trip:
  assumes "clientInstanceError w = None"
    and "\<forall>doc \<in> set (docs (store w)). ExpenseID doc \<noteq> ExpenseID e \<and> ID doc \<noteq> ID e"
  shows "fst (CreateExpense memDriver e w) = Returns None
    \<and> fst (GetExpensesByID memDriver (ExpenseID e) (snd (CreateExpense memDriver e w)))
        = Returns (e\<lparr>Date := msTruncate (Date e)\<rparr>, None)
    \<and> msTruncate (Date e) \<le> Date e \<and> Date e < msTruncate (Date e) + 1000000"
proof -
  from assms(1) obtain client w1 where acq: "GetMongoClient memDriver w = (Returns (client, None), w1)"
    and st: "store w1 = store w" by (rule mem_acquired)
  let ?w2 = "snd (CreateExpense memDriver e w)"
  let ?doc = "e\<lparr>Date := msTruncate (Date e)\<rparr>"
  have fresh: "ID e \<notin> set (map ID (docs (store w)))" using assms(2) by auto
  then have ins: "memInsert e (store w) = (None, (store w)\<lparr>docs := docs (store w) @ [?doc]\<rparr>)"
    by (simp add: memInsert_def)
  have created: "CreateExpense memDriver e w
      = (Returns None,
         called (CallInsertOne (expenseCollection client) e)
           ((store w)\<lparr>docs := docs (store w) @ [?doc]\<rparr>) w1)"
    using CreateExpense_acquired [OF acq, of e] st ins by (simp add: memDriver_def)
  from GetMongoClient_result [OF acq]
  have err: "clientInstanceError w1 = None" and once: "mongoOnce w1" by simp_all
  have acq2: "GetMongoClient memDriver ?w2 = (Returns (clientInstance ?w2, None), ?w2)"
    using err once by (simp add: created called_def GetMongoClient_done)
  have "find (matches [(''expenseID'', BString (ExpenseID e))]) (docs (store ?w2)) = Some ?doc"
    using assms(2) by (simp add: created called_def find_append_fresh)
  then have "fst (GetExpensesByID memDriver (ExpenseID e) ?w2) = Returns (?doc, None)"
    using GetExpensesByID_acquired [OF acq2, of "ExpenseID e"] by (simp add: memDriver_def)
  moreover have "msTruncate (Date e) \<le> Date e \<and> Date e < msTruncate (Date e) + 1000000"
    unfolding msTruncate_def by presburger
  ultimately show ?thesis using created by simp
qed

theorem create_then_find_round_trip_witness:
  "clientInstanceError (initialWorld \<lparr>docs = [lunch\<lparr>ID := 1, ExpenseID := ''2x''\<rparr>]\<rparr>) = None
   \<and> fst (CreateExpense memDriver (lunch\<lparr>Date := 1700000000123456789\<rparr>)
        (initialWorld \<lparr>docs = [lunch\<lparr>ID := 1, ExpenseID := ''2x''\<rparr>]\<rparr>)) = Returns None
   \<and> fst (GetExpensesByID memDriver ''1d''
        (snd (CreateExpense memDriver (lunch\<lparr>Date := 1700000000123456789\<rparr>)
          (initialWorld \<lparr>docs = [lunch\<lparr>ID := 1, ExpenseID := ''2x''\<rparr>]\<rparr>))))
      = Returns (lunch\<lparr>Date := 1700000000123000000\<rparr>, None)"
proof -
  let ?w = "initialWorld \<lparr>docs = [lunch\<lparr>ID := 1, ExpenseID := ''2x''\<rparr>]\<rparr>"
  let ?e = "lunch\<lparr>Date := 1700000000123456789\<rparr>"
  have a: "clientInstanceError ?w = None"
    by (simp add: initialWorld_def)
  have b: "\<forall>doc \<in> set (docs (store ?w)). ExpenseID doc \<noteq> ExpenseID ?e \<and> ID doc \<noteq> ID ?e"
    by (simp add: initialWorld_def lunch_def)
  have c: "ExpenseID ?e = ''1d''" by (simp add: lunch_def)
  have d: "?e\<lparr>Date := msTruncate (Date ?e)\<rparr> = lunch\<lparr>Date := 1700000000123000000\<rparr>"
    by (simp add: msTruncate_def)
  from create_then_find_round_trip [OF a b] a show ?thesis
    unfolding c d by simp
qed

theorem create_then_find_round_trip_counterexample:
  "fst (GetExpensesByID memDriver (ExpenseID lunch)
      (snd (CreateExpense memDriver lunch
        (initialWorld \<lparr>docs = [lunch\<lparr>ID := 1, Title := ''Earlier expense''\<rparr>]\<rparr>))))
     = Returns (lunch\<lparr>ID := 1, Title := ''Earlier expense''\<rparr>, None)
   \<and> Title (lunch\<lparr>ID := 1, Title := ''Earlier expense''\<rparr>) \<noteq> Title lunch
   \<and> fst (CreateExpense memDriver lunch
        (initialWorld \<lparr>docs = [zeroExpense\<lparr>ExpenseID := ''2x''\<rparr>]\<rparr>))
     = Returns (Some (DriverError ''E11000 duplicate key''))
   \<and> fst (GetExpensesByID memDriver (ExpenseID lunch)
      (snd (CreateExpense memDriver lunch
        (initialWorld \<lparr>docs = [zeroExpense\<lparr>ExpenseID := ''2x''\<rparr>]\<rparr>))))
     = Returns (zeroExpense, Some ErrNoDocuments)
   \<and> fst (GetExpensesByID memDriver ''1d''
      (snd (CreateExpense memDriver (lunch\<lparr>Date := 1700000000123456789\<rparr>)
        (initialWorld \<lparr>docs = []\<rparr>))))
     = Returns (lunch\<lparr>Date := 1700000000123000000\<rparr>, None)
   \<and> Date (lunch\<lparr>Date := 1700000000123000000\<rparr>)
     \<noteq> Date (lunch\<lparr>Date := 1700000000123456789\<rparr>)"
  by (simp add: GetExpensesByID_def CreateExpense_def GetMongoClient_def onceDo_def
      initClient_def connectCall_def pingCall_def recordError_def called_def memDriver_def
      memInsert_def msTruncate_def initialWorld_def lunch_def matches_def expenseCollection_def
      zeroExpense_def)

text \<open>
  C7: the mapping loop of \<open>CreateManyExpenses\<close> never indexes outside the slice and
  yields one element for each input \<open>Expense\<close>, the i-th holding the i-th input; when
  the acquisition succeeds, the one document call the function makes is an \<open>InsertMany\<close>
  of exactly that sequence, and what the driver answers is what the function returns.
\<close>

theorem bulk_insert_keeps_length_and_order:
  assumes "GetMongoClient d w = (Returns (client, None), w1)"
  shows "fillInsertable 0 list (replicate (length list) INil) = Some (map Boxed list)
    \<and> length (map Boxed list) = length list
    \<and> (\<forall>i < length list. map Boxed list ! i = Boxed (list ! i))
    \<and> calls (snd (CreateManyExpenses d list w))
        = calls w1 @ [CallInsertMany (expenseCollection client) (map Boxed list)]
    \<and> fst (CreateManyExpenses d list w)
        = Returns (fst (drvInsertMany d (expenseCollection client) (map Boxed list) (store w1)))"
  by (simp add: fillInsertable_all CreateManyExpenses_acquired [OF assms] called_def)

theorem bulk_insert_keeps_length_and_order_witness:
  "fst (GetMongoClient (cannedDriver (Some (Client 7), None) None (Inr [])) (initialWorld ()))
     = Returns (Some (Client 7), None)
   \<and> calls (snd (CreateManyExpenses (cannedDriver (Some (Client 7), None) None (Inr []))
        [zeroExpense\<lparr>ExpenseID := ''a''\<rparr>, zeroExpense\<lparr>ExpenseID := ''b''\<rparr>] (initialWorld ())))
     = [CallConnect URI, CallPing (Some (Client 7)),
        CallInsertMany (expenseCollection (Some (Client 7)))
          [Boxed (zeroExpense\<lparr>ExpenseID := ''a''\<rparr>), Boxed (zeroExpense\<lparr>ExpenseID := ''b''\<rparr>)]]"
  using bulk_insert_keeps_length_and_order [OF canned_acquired [of "Inr []"],
      where list = "[zeroExpense\<lparr>ExpenseID := ''a''\<rparr>, zeroExpense\<lparr>ExpenseID := ''b''\<rparr>]"]
  by (simp add: canned_acquired)

text \<open>
  C8: when the acquisition succeeds, the one document call of \<open>DeleteExpense\<close> is a
  \<open>DeleteOne\<close> with the filter \<open>expenseID = code\<close>, and the error it returns is the
  error of that call, whatever the count of deleted documents: a delete that matched
  nothing and reported no error returns nil. On the store of the spec the delete succeeds,
  removes the first document with that \<open>expenseID\<close> and no other: the collection loses
  one document if one matched and none otherwise, and the documents with another
  \<open>expenseID\<close> stay as they were.
\<close>

theorem delete_removes_at_most_one:
  "(GetMongoClient d w = (Returns (client, None), w1) \<longrightarrow>
      calls (snd (DeleteExpense d code w))
        = calls w1 @ [CallDeleteOne (expenseCollection client) [(''expenseID'', BString code)]]
      \<and> fst (DeleteExpense d code w)
        = Returns (snd (fst (drvDeleteOne d (expenseCollection client)
            [(''expenseID'', BString code)] (store w1)))))
   \<and> (clientInstanceError m = None \<longrightarrow>
      fst (DeleteExpense memDriver code m) = Returns None
      \<and> docs (store (snd (DeleteExpense memDriver code m)))
          = deleteFirst (\<lambda>doc. ExpenseID doc = code) (docs (store m))
      \<and> length (docs (store (snd (DeleteExpense memDriver code m))))
          = (if \<exists>doc \<in> set (docs (store m)). ExpenseID doc = code
             then length (docs (store m)) - 1 else length (docs (store m)))
      \<and> filter (\<lambda>doc. ExpenseID doc \<noteq> code) (docs (store (snd (DeleteExpense memDriver code m))))
          = filter (\<lambda>doc. ExpenseID doc \<noteq> code) (docs (store m)))"
proof -
  have code_level: "calls (snd (DeleteExpense d code w))
        = calls w1 @ [CallDeleteOne (expenseCollection client) [(''expenseID'', BString code)]]
      \<and> fst (DeleteExpense d code w)
        = Returns (snd (fst (drvDeleteOne d (expenseCollection client)
            [(''expenseID'', BString code)] (store w1))))"
    if "GetMongoClient d w = (Returns (client, None), w1)"
    by (simp add: DeleteExpense_acquired [OF that] called_def)
  have store_level: "fst (DeleteExpense memDriver code m) = Returns None
      \<and> docs (store (snd (DeleteExpense memDriver code m)))
          = deleteFirst (\<lambda>doc. ExpenseID doc = code) (docs (store m))"
    if "clientInstanceError m = None"
  proof -
    from that obtain c m1 where acq: "GetMongoClient memDriver m = (Returns (c, None), m1)"
      and st: "store m1 = store m" by (rule mem_acquired)
    from DeleteExpense_acquired [OF acq, of code] st show ?thesis
      by (simp add: mem_DeleteOne_error mem_DeleteOne_docs called_def matches_expenseID_fun)
  qed
  from code_level store_level show ?thesis
    by (simp add: deleteFirst_length deleteFirst_others)
qed

theorem delete_removes_at_most_one_witness:
  "fst (GetMongoClient memDriver
        (initialWorld \<lparr>docs = [lunch\<lparr>ID := 1\<rparr>, lunch\<lparr>ID := 2, ExpenseID := ''2x''\<rparr>,
                               lunch\<lparr>ID := 3\<rparr>]\<rparr>))
     = Returns (Some (Client 0), None)
   \<and> clientInstanceError
        (initialWorld \<lparr>docs = [lunch\<lparr>ID := 1\<rparr>, lunch\<lparr>ID := 2, ExpenseID := ''2x''\<rparr>,
                               lunch\<lparr>ID := 3\<rparr>]\<rparr>) = None
   \<and> fst (DeleteExpense memDriver ''1d''
        (initialWorld \<lparr>docs = [lunch\<lparr>ID := 1\<rparr>, lunch\<lparr>ID := 2, ExpenseID := ''2x''\<rparr>,
                               lunch\<lparr>ID := 3\<rparr>]\<rparr>)) = Returns None
   \<and> docs (store (snd (DeleteExpense memDriver ''1d''
        (initialWorld \<lparr>docs = [lunch\<lparr>ID := 1\<rparr>, lunch\<lparr>ID := 2, ExpenseID := ''2x''\<rparr>,
                               lunch\<lparr>ID := 3\<rparr>]\<rparr>))))
     = [lunch\<lparr>ID := 2, ExpenseID := ''2x''\<rparr>, lunch\<lparr>ID := 3\<rparr>]"
proof -
  let ?w = "initialWorld \<lparr>docs = [lunch\<lparr>ID := 1\<rparr>, lunch\<lparr>ID := 2, ExpenseID := ''2x''\<rparr>,
                               lunch\<lparr>ID := 3\<rparr>]\<rparr>"
  have r: "fst (GetMongoClient memDriver ?w) = Returns (Some (Client 0), None)"
    by (simp add: GetMongoClient_def onceDo_def initClient_def connectCall_def
        pingCall_def recordError_def called_def memDriver_def initialWorld_def)
  then have a: "GetMongoClient memDriver ?w
      = (Returns (Some (Client 0), None), snd (GetMongoClient memDriver ?w))"
    by (simp add: prod_eq_iff)
  have e: "clientInstanceError ?w = None" by (simp add: initialWorld_def)
  have d: "deleteFirst (\<lambda>doc. ExpenseID doc = ''1d'') (docs (store ?w))
      = [lunch\<lparr>ID := 2, ExpenseID := ''2x''\<rparr>, lunch\<lparr>ID := 3\<rparr>]"
    by (simp add: initialWorld_def lunch_def)
  note t = delete_removes_at_most_one [where d = memDriver and w = ?w
      and client = "Some (Client 0)" and ?w1.0 = "snd (GetMongoClient memDriver ?w)"
      and m = ?w and code = "''1d''"]
  from t a e have "fst (DeleteExpense memDriver ''1d'' ?w) = Returns None"
    and "docs (store (snd (DeleteExpense memDriver ''1d'' ?w)))
      = deleteFirst (\<lambda>doc. ExpenseID doc = ''1d'') (docs (store ?w))"
    by blast+
  with r e d show ?thesis by simp
qed

text \<open>
  C9: the result of \<open>Ping\<close> overwrites the recorded error and the client of the failed
  connect is cached. On a driver whose \<open>Connect\<close> fails, returning the nil client with
  its error, and whose \<open>Ping\<close> would report an error of its own, \<open>Ping\<close> is called on
  the nil client and panics: nothing is written after the error of \<open>Connect\<close>, the
  assignment of the handle is not reached, and the guard has fired. A second call returns
  the nil handle with the error of \<open>Connect\<close>, and the log holds the one \<open>Connect\<close> and
  the one \<open>Ping\<close>.
\<close>

theorem connect_error_stays_after_ping_panics:
  "fst (GetMongoClient
      (cannedDriver (None, Some (DriverError ''refused'')) (Some (DriverError ''unreachable''))
         (Inr []))
      (initialWorld ()))
     = Panics
   \<and> GetMongoClient
      (cannedDriver (None, Some (DriverError ''refused'')) (Some (DriverError ''unreachable''))
         (Inr []))
      (snd (GetMongoClient
        (cannedDriver (None, Some (DriverError ''refused'')) (Some (DriverError ''unreachable''))
           (Inr []))
        (initialWorld ())))
     = (Returns (None, Some (DriverError ''refused'')),
        \<lparr>clientInstance = None, clientInstanceError = Some (DriverError ''refused''),
         mongoOnce = True, store = (), calls = [CallConnect URI, CallPing None]\<rparr>)"
  by (simp add: GetMongoClient_def onceDo_def initClient_def connectCall_def
      pingCall_def recordError_def called_def cannedDriver_def initialWorld_def)

text \<open>
  C10: when the acquisition and \<open>Find\<close> succeed and a document fails to decode,
  \<open>GetAllIssues\<close> returns the decode error with the documents decoded before it, and
  the calls it made end with that \<open>Decode\<close>: the cursor is not closed. Among the calls
  of \<open>GetAllIssues\<close> there is a \<open>Close\<close> exactly when every document of the cursor
  decodes.
\<close>

theorem decode_failure_returns_prefix_unclosed:
  assumes "GetMongoClient d w = (Returns (client, None), w1)"
    and "drvFind d (expenseCollection client) [([], BNil)] (store w1) = (Inr cur, s2)"
  shows "(cur = map Inr xs @ Inl e # rest \<longrightarrow>
        fst (GetAllIssues d w) = Returns (xs, Some e)
        \<and> calls (snd (GetAllIssues d w))
            = calls w1 @ CallFind (expenseCollection client) [([], BNil)]
                # concat (replicate (Suc (length xs)) [CallCursorNext, CallCursorDecode]))
    \<and> (CallCursorClose \<in> set (drop (length (calls w1)) (calls (snd (GetAllIssues d w))))
        \<longleftrightarrow> (\<forall>item \<in> set cur. \<not> isl item))"
proof -
  have part1: "fst (GetAllIssues d w) = Returns (xs, Some e)
      \<and> calls (snd (GetAllIssues d w))
          = calls w1 @ CallFind (expenseCollection client) [([], BNil)]
              # concat (replicate (Suc (length xs)) [CallCursorNext, CallCursorDecode])"
    if c: "cur = map Inr xs @ Inl e # rest"
    using GetAllIssues_undecodable [OF assms(1), of xs e rest s2] assms(2) c by simp
  have noclose: "CallCursorClose \<notin> set (concat (replicate n [CallCursorNext, CallCursorDecode]))"
    for n by (induction n) simp_all
  have part2: "CallCursorClose \<in> set (drop (length (calls w1)) (calls (snd (GetAllIssues d w))))
        \<longleftrightarrow> (\<forall>item \<in> set cur. \<not> isl item)"
    using cursor_cases [of cur]
  proof
    assume "\<exists>ys. cur = map Inr ys"
    then obtain ys where c: "cur = map Inr ys" ..
    from GetAllIssues_decoded [OF assms(1), of ys s2] assms(2) c
    have "calls (snd (GetAllIssues d w))
        = calls w1 @ CallFind (expenseCollection client) [([], BNil)]
           # concat (replicate (length ys) [CallCursorNext, CallCursorDecode])
           @ [CallCursorNext, CallCursorClose]"
      by simp
    then show ?thesis using c by auto
  next
    assume "\<exists>ys e' rest'. cur = map Inr ys @ Inl e' # rest'"
    then obtain ys e' rest' where c: "cur = map Inr ys @ Inl e' # rest'" by blast
    from GetAllIssues_undecodable [OF assms(1), of ys e' rest' s2] assms(2) c
    have "calls (snd (GetAllIssues d w))
        = calls w1 @ CallFind (expenseCollection client) [([], BNil)]
           # concat (replicate (Suc (length ys)) [CallCursorNext, CallCursorDecode])"
      by simp
    then have "CallCursorClose \<notin> set (drop (length (calls w1)) (calls (snd (GetAllIssues d w))))"
      using noclose [of "Suc (length ys)"] by (simp del: replicate.simps)
    moreover have "\<not> (\<forall>item \<in> set cur. \<not> isl item)" using c by auto
    ultimately show ?thesis by blast
  qed
  from part1 part2 show ?thesis by blast
qed

theorem decode_failure_returns_prefix_unclosed_witness:
  "fst (GetMongoClient
        (cannedDriver (Some (Client 7), None) None
           (Inr [Inr (zeroExpense\<lparr>ExpenseID := ''a''\<rparr>), Inl (DriverError ''decode''),
                 Inr (zeroExpense\<lparr>ExpenseID := ''b''\<rparr>)]))
        (initialWorld ()))
     = Returns (Some (Client 7), None)
   \<and> fst (GetAllIssues
        (cannedDriver (Some (Client 7), None) None
           (Inr [Inr (zeroExpense\<lparr>ExpenseID := ''a''\<rparr>), Inl (DriverError ''decode''),
                 Inr (zeroExpense\<lparr>ExpenseID := ''b''\<rparr>)]))
        (initialWorld ()))
     = Returns ([zeroExpense\<lparr>ExpenseID := ''a''\<rparr>], Some (DriverError ''decode''))
   \<and> CallCursorClose \<notin> set (calls (snd (GetAllIssues
        (cannedDriver (Some (Client 7), None) None
           (Inr [Inr (zeroExpense\<lparr>ExpenseID := ''a''\<rparr>), Inl (DriverError ''decode''),
                 Inr (zeroExpense\<lparr>ExpenseID := ''b''\<rparr>)]))
        (initialWorld ()))))"
proof -
  let ?cur = "[Inr (zeroExpense\<lparr>ExpenseID := ''a''\<rparr>), Inl (DriverError ''decode''),
                 Inr (zeroExpense\<lparr>ExpenseID := ''b''\<rparr>)]"
  let ?d = "cannedDriver (Some (Client 7), None) None (Inr ?cur)"
  have f: "drvFind ?d (expenseCollection (Some (Client 7))) [([], BNil)]
      (store \<lparr>clientInstance = Some (Client 7), clientInstanceError = None, mongoOnce = True,
       store = (), calls = [CallConnect URI, CallPing (Some (Client 7))]\<rparr>) = (Inr ?cur, ())"
    by (simp add: cannedDriver_def)
  have c: "?cur = map Inr [zeroExpense\<lparr>ExpenseID := ''a''\<rparr>] @ Inl (DriverError ''decode'')
      # [Inr (zeroExpense\<lparr>ExpenseID := ''b''\<rparr>)]"
    by simp
  note t = decode_failure_returns_prefix_unclosed [OF canned_acquired f,
      where xs = "[zeroExpense\<lparr>ExpenseID := ''a''\<rparr>]" and e = "DriverError ''decode''"
        and rest = "[Inr (zeroExpense\<lparr>ExpenseID := ''b''\<rparr>)]"]
  from t c have r: "fst (GetAllIssues ?d (initialWorld ()))
      = Returns ([zeroExpense\<lparr>ExpenseID := ''a''\<rparr>], Some (DriverError ''decode''))"
    by blast
  from t c have l: "calls (snd (GetAllIssues ?d (initialWorld ())))
      = calls \<lparr>clientInstance = Some (Client 7), clientInstanceError = None, mongoOnce = True,
          store = (), calls = [CallConnect URI, CallPing (Some (Client 7))]\<rparr>
        @ CallFind (expenseCollection (Some (Client 7))) [([], BNil)]
        # concat (replicate (Suc (length [zeroExpense\<lparr>ExpenseID := ''a''\<rparr>]))
            [CallCursorNext, CallCursorDecode])"
    by blast
  have n: "CallCursorClose \<notin> set (calls (snd (GetAllIssues ?d (initialWorld ()))))"
    unfolding l by simp
  have a: "fst (GetMongoClient ?d (initialWorld ())) = Returns (Some (Client 7), None)"
    by (simp add: canned_acquired)
  from a r n show ?thesis by blast
qed

end
